theory Spec2Isabelle
  imports Complex_Main "HOL-Library.Multiset"
begin

section \<open>HybridFactor (gtsam/hybrid/HybridFactor.cpp)\<close>

text \<open>
  A \<open>Key\<close> is an unsigned 64-bit identifier. The code below only copies keys, compares
  them and hands them to the key formatter, so they are modelled as natural numbers.
  A \<open>DiscreteKey\<close> is the pair of a key and its cardinality; \<open>KeyVector\<close> and
  \<open>DiscreteKeys\<close> are vectors, modelled as lists.
\<close>

type_synonym Key = nat
type_synonym DiscreteKey = "Key \<times> nat"
type_synonym KeyVector = "Key list"
type_synonym DiscreteKeys = "DiscreteKey list"
type_synonym KeyFormatter = "Key \<Rightarrow> string"

datatype HybridCategory = Discrete | Continuous | Hybrid

text \<open>
  The error kinds named in the specification. None of the three constructors of
  \<open>HybridFactor\<close> contains a \<open>throw\<close>; the outcome of a constructor call is nevertheless
  typed \<open>error + HybridFactor\<close>, so that "the construction fails" is a statement about
  the model.
\<close>

datatype error = MissingKey | PrunedBranch | WrongVariant | MissingMeasurement | IllFormedNode

text \<open>The members of \<open>HybridFactor\<close>: \<open>keys\<close> is the member \<open>keys_\<close> of the base class \<open>Factor\<close>.\<close>

record HybridFactor =
  keys :: KeyVector
  category :: HybridCategory
  discreteKeys :: DiscreteKeys
  continuousKeys :: KeyVector

text \<open>
  \<open>std::copy\<close> and \<open>std::transform\<close> through a \<open>std::back_inserter\<close>: every element of the
  range is pushed at the back of the destination, in order.
\<close>

fun copy_back :: "'a list \<Rightarrow> 'a list \<Rightarrow> 'a list" where
  "copy_back [] dest = dest"
| "copy_back (x # xs) dest = copy_back xs (dest @ [x])"

fun transform_back :: "('a \<Rightarrow> 'b) \<Rightarrow> 'a list \<Rightarrow> 'b list \<Rightarrow> 'b list" where
  "transform_back g [] dest = dest"
| "transform_back g (x # xs) dest = transform_back g xs (dest @ [g x])"

definition CollectKeys :: "KeyVector \<Rightarrow> DiscreteKeys \<Rightarrow> KeyVector" where
  "CollectKeys continuousKeys0 discreteKeys0 =
     (let allKeys = [];
          allKeys = copy_back continuousKeys0 allKeys;
          allKeys = transform_back (\<lambda>k. fst k) discreteKeys0 allKeys
      in allKeys)"

definition CollectKeys2 :: "KeyVector \<Rightarrow> KeyVector \<Rightarrow> KeyVector" where
  "CollectKeys2 keys1 keys2 =
     (let allKeys = [];
          allKeys = copy_back keys1 allKeys;
          allKeys = copy_back keys2 allKeys
      in allKeys)"

definition CollectDiscreteKeys :: "DiscreteKeys \<Rightarrow> DiscreteKeys \<Rightarrow> DiscreteKeys" where
  "CollectDiscreteKeys key1 key2 =
     (let allKeys = [];
          allKeys = copy_back key1 allKeys;
          allKeys = copy_back key2 allKeys
      in allKeys)"

text \<open>\<open>HybridFactor::HybridFactor(const KeyVector &keys)\<close>\<close>

definition HybridFactor_keys :: "KeyVector \<Rightarrow> error + HybridFactor" where
  "HybridFactor_keys ks =
     Inr \<lparr>keys = ks, category = Continuous, discreteKeys = [], continuousKeys = ks\<rparr>"

text \<open>\<open>HybridFactor::HybridFactor(const KeyVector &continuousKeys, const DiscreteKeys &discreteKeys)\<close>\<close>

definition HybridFactor_ck_dk :: "KeyVector \<Rightarrow> DiscreteKeys \<Rightarrow> error + HybridFactor" where
  "HybridFactor_ck_dk ck dk =
     Inr \<lparr>keys = CollectKeys ck dk,
          category =
            (if length ck = 0 \<and> length dk \<noteq> 0 then Discrete
             else if length ck \<noteq> 0 \<and> length dk = 0 then Continuous
             else Hybrid),
          discreteKeys = dk,
          continuousKeys = ck\<rparr>"

text \<open>\<open>HybridFactor::HybridFactor(const DiscreteKeys &discreteKeys)\<close>\<close>

definition HybridFactor_dk :: "DiscreteKeys \<Rightarrow> error + HybridFactor" where
  "HybridFactor_dk dk =
     Inr \<lparr>keys = CollectKeys [] dk, category = Discrete, discreteKeys = dk,
          continuousKeys = []\<rparr>"

subsection \<open>Printing\<close>

text \<open>
  \<open>HybridFactor::print\<close> writes to \<open>std::cout\<close>; the model returns the characters written.
  The two \<open>for\<close> loops recurse on the loop index. Inside the first loop \<open>c\<close> is below the
  size, so the unsigned \<open>size() - 1\<close> does not wrap there.
\<close>

definition category_label :: "HybridCategory \<Rightarrow> string" where
  "category_label c =
     (case c of Continuous \<Rightarrow> ''Continuous '' | Discrete \<Rightarrow> ''Discrete '' | Hybrid \<Rightarrow> ''Hybrid '')"

function print_continuous :: "KeyFormatter \<Rightarrow> KeyVector \<Rightarrow> DiscreteKeys \<Rightarrow> nat \<Rightarrow> string" where
  "print_continuous formatter ck dk c =
     (if c < length ck then
        formatter (ck ! c) @
        (if c < length ck - 1 then '' ''
         else (if length dk > 0 then ''; '' else '''')) @
        print_continuous formatter ck dk (c + 1)
      else '''')"
  by pat_completeness auto
termination
  by (relation "measure (\<lambda>(formatter, ck, dk, c). length ck - c)") auto

declare print_continuous.simps [simp del]

function print_discrete :: "KeyFormatter \<Rightarrow> DiscreteKeys \<Rightarrow> nat \<Rightarrow> string" where
  "print_discrete formatter dk d =
     (if d < length dk then
        formatter (fst (dk ! d)) @
        (if d < length dk - 1 then '' '' else '''') @
        print_discrete formatter dk (d + 1)
      else '''')"
  by pat_completeness auto
termination
  by (relation "measure (\<lambda>(formatter, dk, d). length dk - d)") auto

declare print_discrete.simps [simp del]

definition print :: "string \<Rightarrow> KeyFormatter \<Rightarrow> HybridFactor \<Rightarrow> string" where
  "print s formatter f =
     (if s = [] then '''' else s @ [CHR 0x0A]) @
     category_label (category f) @
     ''['' @
     print_continuous formatter (continuousKeys f) (discreteKeys f) 0 @
     print_discrete formatter (discreteKeys f) 0 @
     '']''"

text \<open>
  The format as the specification words it: the category label, \<open>[\<close>, the continuous keys
  separated by spaces, \<open>;\<close> if discrete keys follow, the discrete keys separated by spaces,
  \<open>]\<close>. The blanks after the label and after the semicolon are those of the expected
  string \<open>Hybrid [x1 x2; 1]\<close> of the printing test.
\<close>

fun space_separated :: "string list \<Rightarrow> string" where
  "space_separated [] = ''''"
| "space_separated [x] = x"
| "space_separated (x # y # ys) = x @ '' '' @ space_separated (y # ys)"

definition print_spec :: "KeyFormatter \<Rightarrow> HybridFactor \<Rightarrow> string" where
  "print_spec formatter f =
     category_label (category f) @ ''['' @
     space_separated (map formatter (continuousKeys f)) @
     (if discreteKeys f \<noteq> [] then ''; '' else '''') @
     space_separated (map (\<lambda>k. formatter (fst k)) (discreteKeys f)) @
     '']''"

text \<open>
  What the code prints: the semicolon is written by the loop over the continuous keys, after
  the last of them, so it needs a continuous key as well as a discrete key; and a non-empty
  \<open>s\<close> is printed first, on a line of its own.
\<close>

definition print_format :: "string \<Rightarrow> KeyFormatter \<Rightarrow> HybridFactor \<Rightarrow> string" where
  "print_format s formatter f =
     (if s = [] then '''' else s @ [CHR 0x0A]) @
     category_label (category f) @ ''['' @
     space_separated (map formatter (continuousKeys f)) @
     (if continuousKeys f \<noteq> [] \<and> discreteKeys f \<noteq> [] then ''; '' else '''') @
     space_separated (map (\<lambda>k. formatter (fst k)) (discreteKeys f)) @
     '']''"

text \<open>
  A key formatter for the examples. It renders the keys of the printing test the way the test
  expects them: the continuous keys 11 and 12 as \<open>x1\<close> and \<open>x2\<close>, the discrete key 1 as \<open>1\<close>.
\<close>

definition example_formatter :: KeyFormatter where
  "example_formatter k =
     (if k = 1 then ''1'' else if k = 11 then ''x1'' else if k = 12 then ''x2'' else ''?'')"

section \<open>Decision trees and mixture factors\<close>

text \<open>
  \<open>HybridFactor.cpp\<close> is modelled above from its code. The decision tree, the mixture factor
  and the bodies of the queries that \<open>HybridBayesNet.h\<close> declares are modelled from the
  specification, and each definition says so; the tests of the mixture factor give the
  examples.
\<close>

text \<open>
  Modelled from the spec: the class \<open>DecisionTree\<close> is missing. Section 2: "every internal
  node branches on one discrete key's cardinality, every leaf holds a Value". A \<open>Choice\<close>
  node holds the key and one subtree for each value of the key.
\<close>

datatype 'v DecisionTree = Leaf 'v | Choice Key "'v DecisionTree list"

text \<open>
  Modelled from the spec: the class \<open>DiscreteValues\<close> is missing. Section 3: "mapping
  identifier to selected value".
\<close>

type_synonym DiscreteValues = "Key \<rightharpoonup> nat"

text \<open>
  Modelled from the spec: \<open>valueAt\<close> is missing. Section 4.1: "walk from root, branching on
  each key present in the tree, ignoring keys in the assignment not used by the tree; fails
  with MissingKey if the tree needs a key not present in the assignment". A selected value
  for which the node has no branch finds no leaf either; the specification names no error
  of its own for it, and the model reports \<open>MissingKey\<close>.
\<close>

function valueAt :: "DiscreteValues \<Rightarrow> 'v DecisionTree \<Rightarrow> error + 'v" where
  "valueAt a (Leaf v) = Inr v"
| "valueAt a (Choice k bs) =
     (case a k of
        None \<Rightarrow> Inl MissingKey
      | Some i \<Rightarrow> if i < length bs then valueAt a (bs ! i) else Inl MissingKey)"
  by pat_completeness auto
termination
  by (relation "measure (\<lambda>(a, t). size t)")
     (auto simp: less_Suc_eq_le intro!: size_list_estimation' [OF nth_mem])

text \<open>
  Modelled from the spec: the accessor for the keys of a tree is missing. Section 3: the
  "set of discrete keys it branches on".
\<close>

primrec labels :: "'v DecisionTree \<Rightarrow> Key set" where
  "labels (Leaf v) = {}"
| "labels (Choice k bs) = insert k (\<Union> (set (map labels bs)))"


text \<open>
  Modelled from the spec: the restriction of a tree to one value of one key is missing. It
  is the lookup "using the portion of the full assignment each needs" (section 4.1), done
  for a single key: below a branch \<open>k = i\<close> of the combined tree, the other operand is
  looked up with \<open>k = i\<close>. A node on \<open>k\<close> without a branch \<open>i\<close> stays, so that a lookup with
  \<open>k = i\<close> fails in the restricted tree as it does in the tree.
\<close>

function choose_tree :: "Key \<Rightarrow> nat \<Rightarrow> 'v DecisionTree \<Rightarrow> 'v DecisionTree" where
  "choose_tree k i (Leaf v) = Leaf v"
| "choose_tree k i (Choice k' bs) =
     (if k' = k \<and> i < length bs then choose_tree k i (bs ! i)
      else Choice k' (map (choose_tree k i) bs))"
  by pat_completeness auto
termination
  by (relation "measure (\<lambda>(k, i, t). size t)")
     (auto simp: less_Suc_eq_le intro!: size_list_estimation' [OF nth_mem] size_list_estimation')

text \<open>
  Modelled from the spec: \<open>combine\<close> is missing. Section 4.1: it "produces a tree over the
  union of both trees' keys; at a leaf of the combined tree the value is op(leafA, leafB)
  where leafA/leafB are looked up in each operand tree using the portion of the full
  assignment each needs", "only materializing leaves for combinations actually reachable
  through the existing branch structure of both operands". The combined tree branches on
  the keys of the first operand in their order, then on the remaining keys of the second
  (section 3: "insertion order of first appearance = branching order").
\<close>

function combine ::
  "('a \<Rightarrow> 'b \<Rightarrow> 'c) \<Rightarrow> 'a DecisionTree \<Rightarrow> 'b DecisionTree \<Rightarrow> 'c DecisionTree" where
  "combine op (Leaf x) t = map_DecisionTree (op x) t"
| "combine op (Choice k bs) t =
     Choice k (map (\<lambda>i. combine op (bs ! i) (choose_tree k i t)) [0..<length bs])"
  by pat_completeness auto
termination
  by (relation "measure (\<lambda>(op, s, t). size s)")
     (auto simp: less_Suc_eq_le intro!: size_list_estimation' [OF nth_mem])

text \<open>
  Modelled from the spec: the invariant of a tree is missing. Section 3: the "tree is a
  total function from the cartesian product of its keys' cardinalities to Value (every
  combination reachable, no partial trees)". A node on \<open>k\<close> has one branch for each of the
  \<open>crd k\<close> values of \<open>k\<close>, at least one, and no key is met twice on a path.
\<close>

fun wf_tree :: "(Key \<Rightarrow> nat) \<Rightarrow> Key set \<Rightarrow> 'v DecisionTree \<Rightarrow> bool" where
  "wf_tree crd seen (Leaf v) = True"
| "wf_tree crd seen (Choice k bs) =
     (k \<notin> seen \<and> length bs = crd k \<and> 0 < crd k \<and>
      (\<forall>b \<in> set bs. wf_tree crd (insert k seen) b))"

subsection \<open>Mixture factors\<close>

text \<open>
  Modelled from the spec: the class \<open>GaussianMixtureFactor\<close> is missing. Sections 2 and 3: a
  decision tree "whose leaves are linear-Gaussian conditionals or factors"; "a leaf may be
  null". The tests build it from continuous keys, discrete keys and the component factors,
  on top of a \<open>HybridFactor\<close>. The type \<open>'f\<close> of the components is left open: the sum of two
  mixtures only moves them.
\<close>

record 'f GaussianMixtureFactor = HybridFactor +
  factors :: "'f option DecisionTree"

text \<open>
  Modelled from the spec: the component factors of a leaf are missing. A null leaf has
  none, another leaf has one.
\<close>

definition componentsOf :: "'f option \<Rightarrow> 'f list" where
  "componentsOf l = (case l of None \<Rightarrow> [] | Some f \<Rightarrow> [f])"

text \<open>
  Modelled from the spec: \<open>operator+\<close> of two mixtures is missing. Section 4.2: it is
  "equivalent to combine with leafwise factor-set concatenation".
\<close>

definition mixture_plus ::
  "('f, 'x) GaussianMixtureFactor_scheme \<Rightarrow> ('f, 'y) GaussianMixtureFactor_scheme \<Rightarrow>
   'f list DecisionTree" where
  "mixture_plus A B =
     combine (\<lambda>x y. x @ y)
       (map_DecisionTree componentsOf (factors A))
       (map_DecisionTree componentsOf (factors B))"

text \<open>
  The two mixtures of the test \<open>Sum\<close>: \<open>A\<close> on the continuous keys 11 and 12 and the discrete
  key \<open>m1 = (1, 2)\<close> with the components \<open>f10\<close> and \<open>f11\<close>, \<open>B\<close> on the continuous keys 11 and 13
  and the discrete key \<open>m2 = (2, 3)\<close> with the components \<open>f20\<close>, \<open>f21\<close> and \<open>f22\<close>. The
  components are named by strings.
\<close>

definition Sum_mixtureFactorA :: "string GaussianMixtureFactor" where
  "Sum_mixtureFactorA =
     \<lparr>keys = [11, 12, 1], category = Hybrid, discreteKeys = [(1, 2)],
      continuousKeys = [11, 12],
      factors = Choice 1 [Leaf (Some ''f10''), Leaf (Some ''f11'')]\<rparr>"

definition Sum_mixtureFactorB :: "string GaussianMixtureFactor" where
  "Sum_mixtureFactorB =
     \<lparr>keys = [11, 13, 2], category = Hybrid, discreteKeys = [(2, 3)],
      continuousKeys = [11, 13],
      factors = Choice 2 [Leaf (Some ''f20''), Leaf (Some ''f21''), Leaf (Some ''f22'')]\<rparr>"

definition Sum_mode :: DiscreteValues where
  "Sum_mode = [1 \<mapsto> 1, 2 \<mapsto> 2]"

definition Sum_cardinality :: "Key \<Rightarrow> nat" where
  "Sum_cardinality k = (if k = 1 then 2 else if k = 2 then 3 else 0)"

subsection \<open>The error of a mixture factor\<close>

text \<open>
  Modelled from the spec: the class \<open>VectorValues\<close> is missing. Section 3: "mapping
  identifier to real vector for continuous variables". Vectors are lists of reals and
  matrices are lists of rows. The \<open>double\<close>s of the code are modelled as real numbers.
\<close>

type_synonym Vector = "real list"
type_synonym Matrix = "real list list"
type_synonym VectorValues = "Key \<rightharpoonup> Vector"


text \<open>
  Modelled from the spec: the class \<open>JacobianFactor\<close> is missing. The tests build one from
  keys with their matrices and a right-hand side \<open>b\<close>, without a noise model:
  \<open>JacobianFactor(X(1), A1, X(2), A2, b)\<close>.
\<close>

record JacobianFactor =
  terms :: "(Key \<times> Matrix) list"
  getb :: Vector

text \<open>Modelled from the spec: the product of a matrix and a vector is missing.\<close>

definition mat_vec :: "Matrix \<Rightarrow> Vector \<Rightarrow> Vector" where
  "mat_vec A x = map (\<lambda>row. sum_list (map2 (\<lambda>p q. p * q) row x)) A"

text \<open>Modelled from the spec: the sum of two vectors is missing.\<close>

definition vec_add :: "Vector \<Rightarrow> Vector \<Rightarrow> Vector" where
  "vec_add u v = map2 (\<lambda>p q. p + q) u v"

text \<open>
  Modelled from the spec: the sum that gives the residual \<open>A x - b\<close> of a Jacobian factor is
  missing. It starts from a vector and adds \<open>A\<^sub>j x\<^sub>j\<close> for every key of the factor. Section 3: the values "must supply
  a continuous value for every continuous key", "or evaluation fails"; a missing value is
  reported as \<open>MissingKey\<close>. The dimensions of the matrices and vectors are taken to agree.
\<close>

fun unweighted_error :: "(Key \<times> Matrix) list \<Rightarrow> VectorValues \<Rightarrow> Vector \<Rightarrow> error + Vector" where
  "unweighted_error [] c e = Inr e"
| "unweighted_error ((k, A) # ts) c e =
     (case c k of
        None \<Rightarrow> Inl MissingKey
      | Some x \<Rightarrow> unweighted_error ts c (vec_add e (mat_vec A x)))"

text \<open>
  Modelled from the spec: the residual of a Jacobian factor at continuous values is
  missing: the sum above, started from \<open>- b\<close>.
\<close>

definition residual :: "JacobianFactor \<Rightarrow> VectorValues \<Rightarrow> error + Vector" where
  "residual f c = unweighted_error (terms f) c (map uminus (getb f))"

text \<open>
  Modelled from the spec: \<open>JacobianFactor::error\<close> is missing. Section 4.2 calls it "the
  continuous-factor error" and leaves it to the linear-Gaussian primitive: for a Jacobian
  factor without a noise model it is half the squared norm of the residual. The test \<open>Error\<close>
  fixes it on two residuals: \<open>(1, 1)\<close> has error 1 and \<open>(2, 2)\<close> has error 4.
\<close>

definition factor_error :: "JacobianFactor \<Rightarrow> VectorValues \<Rightarrow> error + real" where
  "factor_error f c =
     (case residual f c of
        Inl e \<Rightarrow> Inl e
      | Inr r \<Rightarrow> Inr (1 / 2 * sum_list (map (\<lambda>x. x * x) r)))"

text \<open>
  Modelled from the spec: the component of a Gaussian mixture factor is missing. Section 3:
  "each leaf additionally carries an optional log-normalizer (scalar)".
\<close>

record GaussianComponent =
  factor :: JacobianFactor
  logNormalizer :: "real option"

text \<open>
  Modelled from the spec: the error of one leaf is missing. Section 4.2: "if null, fails
  with PrunedBranch; otherwise compute the continuous-factor error at v's continuous
  values, add that leaf's log-normalizer".
\<close>

definition leaf_error :: "VectorValues \<Rightarrow> GaussianComponent option \<Rightarrow> error + real" where
  "leaf_error c l =
     (case l of
        None \<Rightarrow> Inl PrunedBranch
      | Some g \<Rightarrow>
          (case factor_error (factor g) c of
             Inl e \<Rightarrow> Inl e
           | Inr x \<Rightarrow> Inr (x + (case logNormalizer g of None \<Rightarrow> 0 | Some n \<Rightarrow> n))))"

text \<open>
  Modelled from the spec: the error of one leaf, with the continuous-factor error left open,
  is missing. Section 4.2 is the same as for \<open>leaf_error\<close>; the continuous-factor error
  belongs to the external linear-Gaussian primitive ("consumed, not reimplemented", section
  2) and is the parameter \<open>ferr\<close>.
\<close>

definition leaf_error_with ::
  "(JacobianFactor \<Rightarrow> VectorValues \<Rightarrow> error + real) \<Rightarrow> VectorValues \<Rightarrow>
   GaussianComponent option \<Rightarrow> error + real" where
  "leaf_error_with ferr c l =
     (case l of
        None \<Rightarrow> Inl PrunedBranch
      | Some g \<Rightarrow>
          (case ferr (factor g) c of
             Inl e \<Rightarrow> Inl e
           | Inr x \<Rightarrow> Inr (x + (case logNormalizer g of None \<Rightarrow> 0 | Some n \<Rightarrow> n))))"


text \<open>
  Modelled from the spec: collecting the results of a list of computations that may fail is
  missing; the first failure is the failure of the whole (section 7: "an operation either
  returns a fully valid result or fails atomically").
\<close>

fun sequence_list :: "(error + 'a) list \<Rightarrow> error + 'a list" where
  "sequence_list [] = Inr []"
| "sequence_list (x # xs) =
     (case x of
        Inl e \<Rightarrow> Inl e
      | Inr v \<Rightarrow> (case sequence_list xs of Inl e \<Rightarrow> Inl e | Inr vs \<Rightarrow> Inr (v # vs)))"

text \<open>
  Modelled from the spec: the same collection for a tree is missing; the leaves are visited
  from the first branch to the last.
\<close>

primrec sequence_tree :: "(error + 'a) DecisionTree \<Rightarrow> error + 'a DecisionTree" where
  "sequence_tree (Leaf x) = (case x of Inl e \<Rightarrow> Inl e | Inr v \<Rightarrow> Inr (Leaf v))"
| "sequence_tree (Choice k bs) =
     (case sequence_list (map sequence_tree bs) of
        Inl e \<Rightarrow> Inl e
      | Inr ts \<Rightarrow> Inr (Choice k ts))"








section \<open>The hybrid Bayes net\<close>

text \<open>
  Modelled from the spec: the class \<open>HybridConditional\<close> is missing. Section 2: "a tagged
  union over {pure-discrete, pure-continuous-Gaussian, mixture}". A discrete conditional
  holds its discrete keys and the tree of its probabilities, a mixture its discrete keys
  and the tree of its Gaussian conditionals, where a null leaf is \<open>None\<close>. The type \<open>'g\<close> of
  the Gaussian conditionals is left open.
\<close>

datatype 'g HybridConditional =
    DiscreteConditional DiscreteKeys "real DecisionTree"
  | GaussianConditional 'g
  | GaussianMixture DiscreteKeys "'g option DecisionTree"

text \<open>
  Modelled from the spec: the contents of a \<open>HybridBayesNet\<close> are missing. Section 3: an
  "ordered sequence of HybridNode conditionals".
\<close>

type_synonym 'g HybridBayesNet = "'g HybridConditional list"

text \<open>
  Modelled from the spec: adding a discrete key to a union of discrete keys is missing.
  Section 3: "ordered set of discrete keys", "insertion order of first appearance". The keys
  are taken in the order of their first appearance, each identifier once.
\<close>

fun insert_key :: "DiscreteKeys \<Rightarrow> DiscreteKey \<Rightarrow> DiscreteKeys" where
  "insert_key acc dk = (if fst dk \<in> set (map fst acc) then acc else acc @ [dk])"

text \<open>
  Modelled from the spec: the full assignments over a list of discrete keys are missing.
  Section 3: "the cartesian product of its keys' cardinalities". They are listed in
  lexicographic order, the first key being the most significant.
\<close>

fun assignments :: "DiscreteKeys \<Rightarrow> (Key \<times> nat) list list" where
  "assignments [] = [[]]"
| "assignments ((k, n) # ks) =
     concat (map (\<lambda>i. map (\<lambda>a. (k, i) # a) (assignments ks)) [0..<n])"

text \<open>
  Modelled from the spec: the tree over a list of discrete keys whose leaf at each full
  assignment is given by a function is missing. Section 3: a tree is "a total function
  from the cartesian product of its keys' cardinalities to Value".
\<close>

fun tabulate :: "DiscreteKeys \<Rightarrow> (Key \<times> nat) list \<Rightarrow> ((Key \<times> nat) list \<Rightarrow> 'v) \<Rightarrow> 'v DecisionTree" where
  "tabulate [] path f = Leaf (f path)"
| "tabulate ((k, n) # ks) path f =
     Choice k (map (\<lambda>i. tabulate ks (path @ [(k, i)]) f) [0..<n])"

section \<open>From a Bayes net to the posterior of the mode\<close>

text \<open>
  Modelled from the spec: the class \<open>GaussianConditional\<close> is missing, an external primitive
  of the specification. The tests of the mixture model build scalar conditionals without
  parents, \<open>GaussianConditional(z, Vector1(mu), I_1x1, Isotropic::Sigma(1, sigma))\<close>: the
  variable \<open>z\<close> is normal with mean \<open>mu\<close> and standard deviation \<open>sigma\<close>.
\<close>

record ScalarGaussian =
  frontal :: Key
  mean :: real
  sigma :: real

text \<open>
  Modelled from the spec: the likelihood of a Gaussian conditional at a measurement is
  missing. Section 4.4, toFactorGraph: "evaluate the conditional at those fixed values to
  produce a factor over the remaining (parent) variables", "each with its own
  log-normalizer preserved". The factor has no key left; its error is half the square of
  the whitened residual \<open>(z - mu) / sigma\<close>, and its log-normalizer is the logarithm of the
  normalisation constant \<open>sigma sqrt(2 pi)\<close> of the density, so that the exponential of
  minus the error of the mixture factor (section 4.2) is the density of \<open>z\<close>.
\<close>

definition likelihood :: "ScalarGaussian \<Rightarrow> real \<Rightarrow> GaussianComponent" where
  "likelihood g z =
     \<lparr>factor = \<lparr>terms = [], getb = [(mean g - z) / sigma g]\<rparr>,
      logNormalizer = Some (ln (sigma g * sqrt (2 * pi)))\<rparr>"

text \<open>
  Modelled from the spec: a Gaussian conditional taken as a factor on its own variable is
  missing. Section 4.4, toFactorGraph: "conditionals with no frontal in measurements pass
  through unchanged as factors over their full key set".
\<close>

definition asFactor :: "ScalarGaussian \<Rightarrow> GaussianComponent" where
  "asFactor g =
     \<lparr>factor = \<lparr>terms = [(frontal g, [[1 / sigma g]])], getb = [mean g / sigma g]\<rparr>,
      logNormalizer = Some (ln (sigma g * sqrt (2 * pi)))\<rparr>"

text \<open>
  Modelled from the spec: the conversion of one Gaussian conditional is missing. Section
  4.4, toFactorGraph: a conditional whose frontal variable is measured becomes its
  likelihood, another one passes through. A frontal variable of one dimension is covered by
  a measurement of one number; a measurement of another size covers it "partially but not
  fully", which is the failure \<open>MissingMeasurement\<close>.
\<close>

definition convertGaussian :: "VectorValues \<Rightarrow> ScalarGaussian \<Rightarrow> error + GaussianComponent" where
  "convertGaussian measurements g =
     (case measurements (frontal g) of
        None \<Rightarrow> Inr (asFactor g)
      | Some v \<Rightarrow> (case v of [z] \<Rightarrow> Inr (likelihood g z) | _ \<Rightarrow> Inl MissingMeasurement))"

text \<open>
  Modelled from the spec: the factors of a \<open>HybridGaussianFactorGraph\<close> are missing. Section
  6: "a set of hybrid/Gaussian/discrete factors".
\<close>

datatype HybridGaussianFactor =
    DecisionTreeFactor DiscreteKeys "real DecisionTree"
  | MixtureFactor DiscreteKeys "GaussianComponent option DecisionTree"
  | GaussianFactor GaussianComponent

text \<open>
  Modelled from the spec: the conversion of one leaf of a mixture is missing; a null leaf
  stays null.
\<close>

definition convertLeaf ::
  "VectorValues \<Rightarrow> ScalarGaussian option \<Rightarrow> error + GaussianComponent option" where
  "convertLeaf measurements l =
     (case l of
        None \<Rightarrow> Inr None
      | Some g \<Rightarrow>
          (case convertGaussian measurements g of Inl e \<Rightarrow> Inl e | Inr c \<Rightarrow> Inr (Some c)))"

text \<open>
  Modelled from the spec: the conversion of one conditional is missing. Section 4.4,
  toFactorGraph: "a Gaussian mixture conditional becomes a mixture factor (one Gaussian
  factor per discrete leaf, each with its own log-normalizer preserved)"; a discrete
  conditional has no continuous frontal variable and passes through.
\<close>

fun convertConditional ::
  "VectorValues \<Rightarrow> ScalarGaussian HybridConditional \<Rightarrow> error + HybridGaussianFactor" where
  "convertConditional measurements (DiscreteConditional dk t) = Inr (DecisionTreeFactor dk t)"
| "convertConditional measurements (GaussianConditional g) =
     (case convertGaussian measurements g of Inl e \<Rightarrow> Inl e | Inr c \<Rightarrow> Inr (GaussianFactor c))"
| "convertConditional measurements (GaussianMixture dk t) =
     (case sequence_tree (map_DecisionTree (convertLeaf measurements) t) of
        Inl e \<Rightarrow> Inl e
      | Inr t' \<Rightarrow> Inr (MixtureFactor dk t'))"

text \<open>
  Modelled from the spec: the body of \<open>HybridBayesNet::toFactorGraph\<close> is missing (the header
  declares it: "Convert a hybrid Bayes net to a hybrid Gaussian factor graph by converting
  all conditionals with instantiated measurements into likelihood factors"). Section 4.4:
  every conditional is converted, in the order of the net.
\<close>

definition toFactorGraph ::
  "VectorValues \<Rightarrow> ScalarGaussian HybridBayesNet \<Rightarrow> error + HybridGaussianFactor list" where
  "toFactorGraph measurements net = sequence_list (map (convertConditional measurements) net)"

text \<open>
  Modelled from the spec: the value of a factor at a discrete assignment, for a graph that
  has no continuous variable left, is missing. A discrete factor has the value of its tree;
  a Gaussian factor or a leaf of a mixture factor has the exponential of minus its error
  (sections 4.2 and 4.4: the error with the log-normalizer is the "proper log-probability
  scale").
\<close>

fun factorValue :: "DiscreteValues \<Rightarrow> HybridGaussianFactor \<Rightarrow> error + real" where
  "factorValue a (DecisionTreeFactor dk t) = valueAt a t"
| "factorValue a (MixtureFactor dk t) =
     (case valueAt a t of
        Inl e \<Rightarrow> Inl e
      | Inr l \<Rightarrow> (case leaf_error Map.empty l of Inl e \<Rightarrow> Inl e | Inr x \<Rightarrow> Inr (exp (- x))))"
| "factorValue a (GaussianFactor c) =
     (case leaf_error Map.empty (Some c) of Inl e \<Rightarrow> Inl e | Inr x \<Rightarrow> Inr (exp (- x)))"

text \<open>
  Modelled from the spec: the product of the values of all the factors of a graph at a
  discrete assignment is missing. A factor that still has a continuous key has no value
  without continuous values: its error fails with \<open>MissingKey\<close>, and so does the product.
\<close>

fun productValue :: "DiscreteValues \<Rightarrow> HybridGaussianFactor list \<Rightarrow> error + real" where
  "productValue a [] = Inr 1"
| "productValue a (f # fs) =
     (case factorValue a f of
        Inl e \<Rightarrow> Inl e
      | Inr p \<Rightarrow> (case productValue a fs of Inl e \<Rightarrow> Inl e | Inr q \<Rightarrow> Inr (p * q)))"

text \<open>Modelled from the spec: the discrete keys of a factor are missing.\<close>

fun factorDiscreteKeys :: "HybridGaussianFactor \<Rightarrow> DiscreteKeys" where
  "factorDiscreteKeys (DecisionTreeFactor dk t) = dk"
| "factorDiscreteKeys (MixtureFactor dk t) = dk"
| "factorDiscreteKeys (GaussianFactor c) = []"

text \<open>
  Modelled from the spec: the elimination engine is missing; the specification consumes it
  "as a black box that returns a network of the same shape". For a graph without continuous
  variables the model takes what exact elimination returns: the discrete conditional on all
  the discrete keys whose values are the products of the factors, divided by their sum.
\<close>

definition eliminateSequential ::
  "HybridGaussianFactor list \<Rightarrow> error + ScalarGaussian HybridBayesNet" where
  "eliminateSequential graph =
     (let dks = foldl insert_key [] (concat (map factorDiscreteKeys graph)) in
      case sequence_list (map (\<lambda>a. productValue (map_of a) graph) (assignments dks)) of
        Inl e \<Rightarrow> Inl e
      | Inr ps \<Rightarrow>
          Inr [DiscreteConditional dks
                 (tabulate dks []
                    (\<lambda>a. (case map_of (zip (assignments dks) ps) a of
                             None \<Rightarrow> 0
                           | Some p \<Rightarrow> p / sum_list ps)))])"

text \<open>
  The net of the test \<open>GaussianMixtureModel2\<close>: the mixture \<open>P(z | m)\<close> on the discrete key
  \<open>m = (1, 2)\<close> with the means 1 and 3 and the standard deviations 8 and 4 of the variable
  \<open>z\<close>, here the key 20, then the mixing conditional \<open>P(m) = 0.5/0.5\<close>; and the measurement
  \<open>z = 3 - 1\<close>.
\<close>

definition GaussianMixtureModel2_hbn :: "ScalarGaussian HybridBayesNet" where
  "GaussianMixtureModel2_hbn =
     [GaussianMixture [(1, 2)]
        (Choice 1 [Leaf (Some \<lparr>frontal = 20, mean = 1, sigma = 8\<rparr>),
                   Leaf (Some \<lparr>frontal = 20, mean = 3, sigma = 4\<rparr>)]),
      DiscreteConditional [(1, 2)] (Choice 1 [Leaf (1 / 2), Leaf (1 / 2)])]"

definition GaussianMixtureModel2_given :: VectorValues where
  "GaussianMixtureModel2_given = [20 \<mapsto> [3 - 1]]"

text \<open>Modelled from the spec: the two steps of the test, one after the other.\<close>

definition posterior ::
  "VectorValues \<Rightarrow> ScalarGaussian HybridBayesNet \<Rightarrow> error + ScalarGaussian HybridBayesNet" where
  "posterior measurements net =
     (case toFactorGraph measurements net of
        Inl e \<Rightarrow> Inl e
      | Inr graph \<Rightarrow> eliminateSequential graph)"

section \<open>Properties of HybridFactor\<close>

lemma copy_back_append: "copy_back xs dest = dest @ xs"
  by (induction xs arbitrary: dest) simp_all

lemma transform_back_append: "transform_back g xs dest = dest @ map g xs"
  by (induction xs arbitrary: dest) simp_all

lemma CollectKeys_append: "CollectKeys ck dk = ck @ map fst dk"
  by (simp add: CollectKeys_def copy_back_append transform_back_append)

lemma print_continuous_eq:
  "print_continuous formatter ck dk c =
     space_separated (map formatter (drop c ck)) @
     (if c < length ck \<and> dk \<noteq> [] then ''; '' else '''')"
proof (induction formatter ck dk c rule: print_continuous.induct)
  case (1 formatter ck dk c)
  show ?case
  proof (cases "c < length ck")
    case False
    then show ?thesis by (subst print_continuous.simps) simp
  next
    case True
    note lt = True
    have d: "drop c ck = ck ! c # drop (Suc c) ck"
      using lt by (simp add: Cons_nth_drop_Suc)
    show ?thesis
    proof (cases "c < length ck - 1")
      case True
      then have "Suc c < length ck" by simp
      then have d2: "drop (Suc c) ck = ck ! Suc c # drop (Suc (Suc c)) ck"
        by (simp add: Cons_nth_drop_Suc)
      show ?thesis
        using "1.IH"[OF lt] lt True \<open>Suc c < length ck\<close>
        by (subst print_continuous.simps) (simp add: d d2)
    next
      case False
      then have e: "drop (Suc c) ck = []" using lt by simp
      have n: "\<not> Suc c < length ck" using False lt by simp
      show ?thesis
        using "1.IH"[OF lt] lt False n
        by (subst print_continuous.simps) (simp add: d e)
    qed
  qed
qed

lemma print_discrete_eq:
  "print_discrete formatter dk d =
     space_separated (map (\<lambda>k. formatter (fst k)) (drop d dk))"
proof (induction formatter dk d rule: print_discrete.induct)
  case (1 formatter dk d)
  show ?case
  proof (cases "d < length dk")
    case False
    then show ?thesis by (subst print_discrete.simps) simp
  next
    case True
    note lt = True
    have dd: "drop d dk = dk ! d # drop (Suc d) dk"
      using lt by (simp add: Cons_nth_drop_Suc)
    show ?thesis
    proof (cases "d < length dk - 1")
      case True
      then have "Suc d < length dk" by simp
      then have d2: "drop (Suc d) dk = dk ! Suc d # drop (Suc (Suc d)) dk"
        by (simp add: Cons_nth_drop_Suc)
      show ?thesis
        using "1.IH"[OF lt] lt True
        by (subst print_discrete.simps) (simp add: dd d2)
    next
      case False
      then have e: "drop (Suc d) dk = []" using lt by simp
      show ?thesis
        using "1.IH"[OF lt] lt False
        by (subst print_discrete.simps) (simp add: dd e)
    qed
  qed
qed

text \<open>
  C1 (counterexample). With both key sets empty the constructor does not fail: the first
  two tests of its \<open>if\<close> chain are false and the \<open>else\<close> branch builds a node. The other
  two constructors return a node as well.
\<close>

theorem empty_key_sets_counterexample:
  "HybridFactor_ck_dk [] [] =
     Inr \<lparr>keys = [], category = Hybrid, discreteKeys = [], continuousKeys = []\<rparr> \<and>
   HybridFactor_ck_dk [] [] \<noteq> Inl IllFormedNode \<and>
   HybridFactor_keys [] \<noteq> Inl IllFormedNode \<and>
   HybridFactor_dk [] \<noteq> Inl IllFormedNode"
  by (simp add: HybridFactor_ck_dk_def HybridFactor_keys_def HybridFactor_dk_def
      CollectKeys_append)

text \<open>
  C1 (amended). Constructing a HybridFactor whose continuous and discrete key sets are both
  empty does not fail: each of the three constructors returns a node, and that node has no
  keys, no continuous keys and no discrete keys.
\<close>

theorem empty_key_sets_construct:
  "(\<exists>f. HybridFactor_ck_dk [] [] = Inr f \<and>
        keys f = [] \<and> continuousKeys f = [] \<and> discreteKeys f = []) \<and>
   (\<exists>f. HybridFactor_keys [] = Inr f \<and>
        keys f = [] \<and> continuousKeys f = [] \<and> discreteKeys f = []) \<and>
   (\<exists>f. HybridFactor_dk [] = Inr f \<and>
        keys f = [] \<and> continuousKeys f = [] \<and> discreteKeys f = [])"
  by (simp add: HybridFactor_ck_dk_def HybridFactor_keys_def HybridFactor_dk_def
      CollectKeys_append)

text \<open>
  C2. The constructor taking a continuous key vector and discrete keys returns a node whose
  category follows from which of the two is empty: no continuous and some discrete keys
  give Discrete, some continuous and no discrete keys give Continuous, some of both give
  Hybrid.
\<close>

theorem category_from_key_sets:
  "\<exists>f. HybridFactor_ck_dk ck dk = Inr f \<and>
       (ck = [] \<and> dk \<noteq> [] \<longrightarrow> category f = Discrete) \<and>
       (ck \<noteq> [] \<and> dk = [] \<longrightarrow> category f = Continuous) \<and>
       (ck \<noteq> [] \<and> dk \<noteq> [] \<longrightarrow> category f = Hybrid)"
  by (simp add: HybridFactor_ck_dk_def)

theorem category_from_key_sets_witness:
  "(\<exists>f. HybridFactor_ck_dk [] [(1, 2)] = Inr f \<and> category f = Discrete) \<and>
   (\<exists>f. HybridFactor_ck_dk [11, 12] [] = Inr f \<and> category f = Continuous) \<and>
   (\<exists>f. HybridFactor_ck_dk [11, 12] [(1, 2)] = Inr f \<and> category f = Hybrid)"
  using category_from_key_sets [of "[]" "[(1, 2)]"]
    category_from_key_sets [of "[11, 12]" "[]"]
    category_from_key_sets [of "[11, 12]" "[(1, 2)]"]
  by simp

text \<open>
  C8 (counterexample). A Discrete node has discrete keys and no continuous key. The
  specification's format puts a semicolon before its discrete keys; the code prints none,
  because only the loop over the continuous keys writes it.
\<close>

theorem print_Discrete_counterexample:
  "HybridFactor_dk [(1, 2)] =
     Inr \<lparr>keys = [1], category = Discrete, discreteKeys = [(1, 2)], continuousKeys = []\<rparr> \<and>
   print [] example_formatter
     \<lparr>keys = [1], category = Discrete, discreteKeys = [(1, 2)], continuousKeys = []\<rparr>
     = ''Discrete [1]'' \<and>
   print_spec example_formatter
     \<lparr>keys = [1], category = Discrete, discreteKeys = [(1, 2)], continuousKeys = []\<rparr>
     = ''Discrete [; 1]'' \<and>
   print [] example_formatter
     \<lparr>keys = [1], category = Discrete, discreteKeys = [(1, 2)], continuousKeys = []\<rparr>
     \<noteq> print_spec example_formatter
     \<lparr>keys = [1], category = Discrete, discreteKeys = [(1, 2)], continuousKeys = []\<rparr>"
  by (simp add: HybridFactor_dk_def CollectKeys_append print_def print_spec_def
      print_continuous_eq print_discrete_eq category_label_def example_formatter_def)

text \<open>
  C8 (amended). For every HybridFactor, every formatter and every string \<open>s\<close>, print emits:
  \<open>s\<close> and a newline when \<open>s\<close> is not empty; the category label followed by a blank; \<open>[\<close>;
  the continuous keys separated by blanks; a semicolon and a blank when there is at least
  one continuous key and at least one discrete key; the discrete keys separated by blanks;
  \<open>]\<close>. Every key is rendered by the formatter.
\<close>

theorem print_emits_format: "print s formatter f = print_format s formatter f"
  by (simp add: print_def print_format_def print_continuous_eq print_discrete_eq)

text \<open>The node line of the printing test: continuous keys x1 and x2, discrete key 1.\<close>

lemma print_test_example:
  "print [] example_formatter
     \<lparr>keys = [11, 12, 1], category = Hybrid, discreteKeys = [(1, 2)],
      continuousKeys = [11, 12]\<rparr> = ''Hybrid [x1 x2; 1]''"
  by (simp add: print_def print_continuous_eq print_discrete_eq category_label_def
      example_formatter_def)

text \<open>
  C9. The key vector of a HybridFactor built from continuous and discrete keys is the
  continuous keys in their order followed by the identifiers of the discrete keys in their
  order: a concatenation, which keeps duplicates and sorts nothing.
\<close>

theorem keys_are_concatenation:
  "\<exists>f. HybridFactor_ck_dk ck dk = Inr f \<and> keys f = ck @ map fst dk"
  by (simp add: HybridFactor_ck_dk_def CollectKeys_append)

text \<open>
  C10. The constructor taking only a key vector returns, for every key vector (the empty one
  included), a node of category Continuous: it has no failing path and never yields Discrete
  or Hybrid.
\<close>

theorem key_vector_constructor_Continuous:
  "\<exists>f. HybridFactor_keys ks = Inr f \<and> category f = Continuous \<and>
       category f \<noteq> Discrete \<and> category f \<noteq> Hybrid"
  by (simp add: HybridFactor_keys_def)

section \<open>Properties of decision trees\<close>

lemma valueAt_map: "valueAt a (map_DecisionTree f t) = map_sum id f (valueAt a t)"
  by (induction a t rule: valueAt.induct) (auto split: option.splits)

lemma valueAt_choose: "a k = Some i \<Longrightarrow> valueAt a (choose_tree k i t) = valueAt a t"
  by (induction k i t rule: choose_tree.induct) (auto split: option.splits)

lemma valueAt_combine:
  "valueAt a (combine op s t) =
     (case valueAt a s of Inl e \<Rightarrow> Inl e
      | Inr x \<Rightarrow> (case valueAt a t of Inl e \<Rightarrow> Inl e | Inr y \<Rightarrow> Inr (op x y)))"
proof (induction op s t rule: combine.induct)
  case (1 op x t)
  show ?case by (cases "valueAt a t") (simp_all add: valueAt_map)
next
  case (2 op k bs t)
  show ?case
  proof (cases "a k")
    case None
    then show ?thesis by simp
  next
    case (Some i)
    show ?thesis
    proof (cases "i < length bs")
      case False
      then show ?thesis using Some by simp
    next
      case True
      then have "i \<in> set [0..<length bs]" by simp
      from "2.IH"[OF this] True Some show ?thesis
        by (simp add: valueAt_choose [of a k i, OF Some] split: sum.splits)
    qed
  qed
qed

lemma valueAt_cong: "(\<And>k. k \<in> labels t \<Longrightarrow> a k = b k) \<Longrightarrow> valueAt a t = valueAt b t"
proof (induction a t rule: valueAt.induct)
  case (1 a v)
  then show ?case by simp
next
  case (2 a k bs)
  have e: "a k = b k" using "2.prems" by simp
  show ?case
  proof (cases "a k")
    case None
    then show ?thesis using e by simp
  next
    case (Some i)
    show ?thesis
    proof (cases "i < length bs")
      case False
      then show ?thesis using Some e by simp
    next
      case True
      have mem: "bs ! i \<in> set bs" using True by simp
      have agree: "\<And>k'. k' \<in> labels (bs ! i) \<Longrightarrow> a k' = b k'"
      proof -
        fix k' assume "k' \<in> labels (bs ! i)"
        then have "k' \<in> labels (Choice k bs)" using mem by auto
        then show "a k' = b k'" by (rule "2.prems")
      qed
      have "valueAt a (bs ! i) = valueAt b (bs ! i)"
        by (rule "2.IH"[OF Some True]) (rule agree)
      then show ?thesis using Some e True by simp
    qed
  qed
qed

lemma labels_map: "labels (map_DecisionTree f t) = labels t"
  by (induction t) auto

lemma labels_choose: "labels (choose_tree k i t) \<subseteq> labels t"
proof (induction k i t rule: choose_tree.induct)
  case (1 k i v)
  then show ?case by simp
next
  case (2 k i k' bs)
  show ?case
  proof (cases "k' = k \<and> i < length bs")
    case True
    then have "labels (choose_tree k i (bs ! i)) \<subseteq> labels (bs ! i)" using "2.IH"(1) by simp
    moreover have "bs ! i \<in> set bs" using True by simp
    ultimately show ?thesis using True by auto
  next
    case False
    then show ?thesis using "2.IH"(2) by auto
  qed
qed

lemma labels_combine_subset: "labels (combine op s t) \<subseteq> labels s \<union> labels t"
proof (induction op s t rule: combine.induct)
  case (1 op x t)
  then show ?case by (simp add: labels_map)
next
  case (2 op k bs t)
  show ?case
  proof
    fix x assume "x \<in> labels (combine op (Choice k bs) t)"
    then consider "x = k" | i where "i < length bs" "x \<in> labels (combine op (bs ! i) (choose_tree k i t))"
      by auto
    then show "x \<in> labels (Choice k bs) \<union> labels t"
    proof cases
      case 1
      then show ?thesis by simp
    next
      case 2
      then have "x \<in> labels (bs ! i) \<union> labels (choose_tree k i t)"
        using "2.IH"[of i] by auto
      moreover have "bs ! i \<in> set bs" using 2 by simp
      ultimately show ?thesis using labels_choose[of k i t] by auto
    qed
  qed
qed

lemma wf_tree_disjoint: "wf_tree crd seen t \<Longrightarrow> labels t \<inter> seen = {}"
  by (induction t arbitrary: seen) auto

lemma wf_tree_mono: "wf_tree crd seen t \<Longrightarrow> seen' \<subseteq> seen \<Longrightarrow> wf_tree crd seen' t"
proof (induction t arbitrary: seen seen')
  case (Leaf v)
  then show ?case by simp
next
  case (Choice k bs)
  have "\<And>b. b \<in> set bs \<Longrightarrow> wf_tree crd (insert k seen') b"
  proof -
    fix b assume b: "b \<in> set bs"
    then have "wf_tree crd (insert k seen) b" using Choice.prems by simp
    moreover have "insert k seen' \<subseteq> insert k seen" using Choice.prems by auto
    ultimately show "wf_tree crd (insert k seen') b" using Choice.IH[OF b] by blast
  qed
  then show ?case using Choice.prems by auto
qed

lemma choose_absent: "k \<notin> labels t \<Longrightarrow> choose_tree k i t = t"
  by (induction k i t rule: choose_tree.induct) (auto simp: map_idI)

lemma wf_tree_choose: "wf_tree crd seen t \<Longrightarrow> wf_tree crd seen (choose_tree k i t)"
proof (induction k i t arbitrary: seen rule: choose_tree.induct)
  case (1 k i v)
  then show ?case by simp
next
  case (2 k i k' bs)
  show ?case
  proof (cases "k' = k \<and> i < length bs")
    case True
    then have "bs ! i \<in> set bs" by simp
    then have "wf_tree crd (insert k' seen) (bs ! i)" using "2.prems" by simp
    then have "wf_tree crd seen (bs ! i)" using wf_tree_mono by blast
    then show ?thesis using True "2.IH"(1) by simp
  next
    case False
    then show ?thesis using "2.IH"(2) "2.prems" by auto
  qed
qed

lemma labels_choose_cover:
  "wf_tree crd seen t \<Longrightarrow> 0 < crd k \<Longrightarrow>
   labels t \<subseteq> insert k (\<Union>i \<in> {..<crd k}. labels (choose_tree k i t))"
proof (induction t arbitrary: seen)
  case (Leaf v)
  then show ?case by simp
next
  case (Choice k' bs)
  show ?case
  proof (cases "k' = k")
    case True
    show ?thesis
    proof
      fix x assume x: "x \<in> labels (Choice k' bs)"
      show "x \<in> insert k (\<Union>i \<in> {..<crd k}. labels (choose_tree k i (Choice k' bs)))"
      proof (cases "x = k")
        case True
        then show ?thesis by simp
      next
        case False
        then obtain b where b: "b \<in> set bs" "x \<in> labels b" using x True by auto
        then obtain i where i: "i < length bs" "b = bs ! i" by (metis in_set_conv_nth)
        have "wf_tree crd (insert k seen) b" using Choice.prems(1) b True by simp
        then have "k \<notin> labels b" using wf_tree_disjoint by fastforce
        then have "choose_tree k i b = b" by (rule choose_absent)
        then have "x \<in> labels (choose_tree k i (Choice k' bs))" using i b True by simp
        moreover have "i < crd k" using i Choice.prems(1) True by simp
        ultimately show ?thesis by blast
      qed
    qed
  next
    case False
    show ?thesis
    proof
      fix x assume x: "x \<in> labels (Choice k' bs)"
      show "x \<in> insert k (\<Union>i \<in> {..<crd k}. labels (choose_tree k i (Choice k' bs)))"
      proof (cases "x = k'")
        case True
        have "0 \<in> {..<crd k}" using Choice.prems(2) by simp
        moreover have "x \<in> labels (choose_tree k 0 (Choice k' bs))" using True False by simp
        ultimately show ?thesis by blast
      next
        case nk: False
        then obtain b where b: "b \<in> set bs" "x \<in> labels b" using x by auto
        have "wf_tree crd (insert k' seen) b" using Choice.prems(1) b by simp
        from Choice.IH[OF b(1) this Choice.prems(2)] b(2)
        have "x \<in> insert k (\<Union>i \<in> {..<crd k}. labels (choose_tree k i b))" by blast
        then show ?thesis using b(1) False by auto
      qed
    qed
  qed
qed

lemma labels_combine:
  "wf_tree crd seen s \<Longrightarrow> wf_tree crd seen' t \<Longrightarrow>
   labels (combine op s t) = labels s \<union> labels t"
proof (induction op s t arbitrary: seen seen' rule: combine.induct)
  case (1 op x t)
  then show ?case by (simp add: labels_map)
next
  case (2 op k bs t)
  have len: "length bs = crd k" and pos: "0 < crd k" using "2.prems"(1) by simp_all
  have br: "\<And>i. i < length bs \<Longrightarrow>
      labels (combine op (bs ! i) (choose_tree k i t)) = labels (bs ! i) \<union> labels (choose_tree k i t)"
  proof -
    fix i assume i: "i < length bs"
    then have "wf_tree crd (insert k seen) (bs ! i)" using "2.prems"(1) by simp
    moreover have "wf_tree crd seen' (choose_tree k i t)"
      using "2.prems"(2) by (rule wf_tree_choose)
    ultimately show "labels (combine op (bs ! i) (choose_tree k i t)) =
        labels (bs ! i) \<union> labels (choose_tree k i t)"
      using "2.IH"[of i] i by simp
  qed
  show ?case
  proof (rule equalityI)
    show "labels (combine op (Choice k bs) t) \<subseteq> labels (Choice k bs) \<union> labels t"
      by (rule labels_combine_subset)
  next
    show "labels (Choice k bs) \<union> labels t \<subseteq> labels (combine op (Choice k bs) t)"
    proof
      fix x assume "x \<in> labels (Choice k bs) \<union> labels t"
      then consider "x = k" | b where "b \<in> set bs" "x \<in> labels b" | "x \<noteq> k" "x \<in> labels t"
        by auto
      then show "x \<in> labels (combine op (Choice k bs) t)"
      proof cases
        case 1
        then show ?thesis by simp
      next
        case 2
        then obtain i where i: "i < length bs" "b = bs ! i" by (metis in_set_conv_nth)
        then have "x \<in> labels (combine op (bs ! i) (choose_tree k i t))" using br 2 by simp
        then show ?thesis using i by auto
      next
        case 3
        then obtain i where i: "i < crd k" "x \<in> labels (choose_tree k i t)"
          using labels_choose_cover[OF "2.prems"(2) pos] by blast
        then have "x \<in> labels (combine op (bs ! i) (choose_tree k i t))" using br len by simp
        then show ?thesis using i len by auto
      qed
    qed
  qed
qed

lemma wf_tree_map: "wf_tree crd seen (map_DecisionTree f t) = wf_tree crd seen t"
  by (induction t arbitrary: seen) auto

section \<open>The sum of two mixture factors\<close>

text \<open>
  The check of the test \<open>Sum\<close>: at the mode \<open>m1 = 1, m2 = 2\<close> the sum holds \<open>f11\<close> and then
  \<open>f22\<close>.
\<close>

lemma Sum_test_lookup:
  "valueAt Sum_mode (mixture_plus Sum_mixtureFactorA Sum_mixtureFactorB) = Inr [''f11'', ''f22'']"
  by (simp add: mixture_plus_def Sum_mixtureFactorA_def Sum_mixtureFactorB_def Sum_mode_def
      componentsOf_def upt_rec)

text \<open>
  C5. The sum of two mixture factors branches on the union of the keys of the two operands
  (for operands that are total on the value ranges of their keys), and at every assignment
  at which each operand, looked up with only the part of the assignment on its own keys,
  has a leaf, the sum has a leaf whose factors are the multiset union of the component
  factors of these two leaves.
\<close>

theorem mixture_plus_leafwise_union:
  "(wf_tree crd {} (factors A) \<and> wf_tree crd {} (factors B) \<longrightarrow>
      labels (mixture_plus A B) = labels (factors A) \<union> labels (factors B)) \<and>
   (valueAt (a |` labels (factors A)) (factors A) = Inr la \<and>
    valueAt (a |` labels (factors B)) (factors B) = Inr lb \<longrightarrow>
      (\<exists>z. valueAt a (mixture_plus A B) = Inr z \<and>
           mset z = mset (componentsOf la) + mset (componentsOf lb)))"
proof (intro conjI impI)
  assume "wf_tree crd {} (factors A) \<and> wf_tree crd {} (factors B)"
  then have "wf_tree crd {} (map_DecisionTree componentsOf (factors A))"
    and "wf_tree crd {} (map_DecisionTree componentsOf (factors B))"
    by (simp_all add: wf_tree_map)
  then show "labels (mixture_plus A B) = labels (factors A) \<union> labels (factors B)"
    unfolding mixture_plus_def by (simp add: labels_combine labels_map)
next
  assume h: "valueAt (a |` labels (factors A)) (factors A) = Inr la \<and>
    valueAt (a |` labels (factors B)) (factors B) = Inr lb"
  have "valueAt a (factors A) = valueAt (a |` labels (factors A)) (factors A)"
    by (rule valueAt_cong) simp
  moreover have "valueAt a (factors B) = valueAt (a |` labels (factors B)) (factors B)"
    by (rule valueAt_cong) simp
  ultimately have "valueAt a (factors A) = Inr la" "valueAt a (factors B) = Inr lb"
    using h by simp_all
  then have "valueAt a (mixture_plus A B) = Inr (componentsOf la @ componentsOf lb)"
    unfolding mixture_plus_def by (simp add: valueAt_combine valueAt_map)
  then show "\<exists>z. valueAt a (mixture_plus A B) = Inr z \<and>
           mset z = mset (componentsOf la) + mset (componentsOf lb)"
    by simp
qed

theorem mixture_plus_leafwise_union_witness:
  "wf_tree Sum_cardinality {} (factors Sum_mixtureFactorA) \<and>
   wf_tree Sum_cardinality {} (factors Sum_mixtureFactorB) \<and>
   valueAt (Sum_mode |` labels (factors Sum_mixtureFactorA)) (factors Sum_mixtureFactorA)
     = Inr (Some ''f11'') \<and>
   valueAt (Sum_mode |` labels (factors Sum_mixtureFactorB)) (factors Sum_mixtureFactorB)
     = Inr (Some ''f22'') \<and>
   labels (mixture_plus Sum_mixtureFactorA Sum_mixtureFactorB) = {1, 2} \<and>
   (\<exists>z. valueAt Sum_mode (mixture_plus Sum_mixtureFactorA Sum_mixtureFactorB) = Inr z \<and>
        mset z = {#''f11'', ''f22''#})"
proof -
  have w1: "wf_tree Sum_cardinality {} (factors Sum_mixtureFactorA)"
    by (simp add: Sum_mixtureFactorA_def Sum_cardinality_def)
  have w2: "wf_tree Sum_cardinality {} (factors Sum_mixtureFactorB)"
    by (simp add: Sum_mixtureFactorB_def Sum_cardinality_def)
  have v1: "valueAt (Sum_mode |` labels (factors Sum_mixtureFactorA))
      (factors Sum_mixtureFactorA) = Inr (Some ''f11'')"
    by (simp add: Sum_mixtureFactorA_def Sum_mode_def)
  have v2: "valueAt (Sum_mode |` labels (factors Sum_mixtureFactorB))
      (factors Sum_mixtureFactorB) = Inr (Some ''f22'')"
    by (simp add: Sum_mixtureFactorB_def Sum_mode_def)
  have l1: "labels (factors Sum_mixtureFactorA) = {1}"
    by (simp add: Sum_mixtureFactorA_def)
  have l2: "labels (factors Sum_mixtureFactorB) = {2}"
    by (simp add: Sum_mixtureFactorB_def)
  show ?thesis
    using mixture_plus_leafwise_union [of Sum_cardinality Sum_mixtureFactorA Sum_mixtureFactorB
        Sum_mode "Some ''f11''" "Some ''f22''"] w1 w2 v1 v2
    by (auto simp: l1 l2 componentsOf_def insert_commute add_mset_commute)
qed

section \<open>The error tree of a mixture factor\<close>




lemma leaf_error_with_factor_error: "leaf_error_with factor_error c l = leaf_error c l"
  by (simp add: leaf_error_with_def leaf_error_def)






section \<open>The posterior of the mode in the mixture model\<close>

lemma GaussianMixtureModel2_graph:
  "toFactorGraph GaussianMixtureModel2_given GaussianMixtureModel2_hbn =
     Inr [MixtureFactor [(1, 2)]
            (Choice 1
               [Leaf (Some \<lparr>factor = \<lparr>terms = [], getb = [- 1 / 8]\<rparr>,
                             logNormalizer = Some (ln (8 * sqrt (2 * pi)))\<rparr>),
                Leaf (Some \<lparr>factor = \<lparr>terms = [], getb = [1 / 4]\<rparr>,
                             logNormalizer = Some (ln (4 * sqrt (2 * pi)))\<rparr>)]),
          DecisionTreeFactor [(1, 2)] (Choice 1 [Leaf (1 / 2), Leaf (1 / 2)])]"
  by (simp add: toFactorGraph_def GaussianMixtureModel2_hbn_def GaussianMixtureModel2_given_def
      convertLeaf_def convertGaussian_def likelihood_def)

lemma GaussianMixtureModel2_posterior_form:
  "posterior GaussianMixtureModel2_given GaussianMixtureModel2_hbn =
     Inr [DiscreteConditional [(1, 2)]
       (Choice 1
          [Leaf (exp (- (1 / 128 + ln (8 * sqrt (2 * pi)))) * (1 / 2) /
                 (exp (- (1 / 128 + ln (8 * sqrt (2 * pi)))) * (1 / 2) +
                  exp (- (1 / 32 + ln (4 * sqrt (2 * pi)))) * (1 / 2))),
           Leaf (exp (- (1 / 32 + ln (4 * sqrt (2 * pi)))) * (1 / 2) /
                 (exp (- (1 / 128 + ln (8 * sqrt (2 * pi)))) * (1 / 2) +
                  exp (- (1 / 32 + ln (4 * sqrt (2 * pi)))) * (1 / 2)))])]"
  by (simp add: posterior_def GaussianMixtureModel2_graph eliminateSequential_def upt_rec
      leaf_error_def factor_error_def residual_def Let_def)


lemma exp_neg_bounds:
  fixes y :: real
  assumes "0 \<le> y" and "y \<le> 1"
  shows "1 - y + y\<^sup>2 / 2 - y ^ 3 / 6 \<le> exp (- y)"
    and "exp (- y) \<le> 1 - y + y\<^sup>2 / 2 - y ^ 3 / 6 + y ^ 4 / 8"
proof -
  obtain t where t: "\<bar>t\<bar> \<le> \<bar>- y\<bar>"
    and e: "exp (- y) = (\<Sum>m<4. ((- y) ^ m) / fact m) + (exp t / fact 4) * (- y) ^ 4"
    using Maclaurin_exp_le[of "- y" 4] by blast
  have s: "(\<Sum>m<4. ((- y) ^ m) / fact m) = 1 - y + y\<^sup>2 / 2 - y ^ 3 / 6"
    by (simp add: eval_nat_numeral)
  have f: "fact 4 = (24::real)" by (simp add: eval_nat_numeral)
  have p: "(- y) ^ 4 = y ^ 4" by simp
  have r: "exp (- y) = 1 - y + y\<^sup>2 / 2 - y ^ 3 / 6 + exp t / 24 * y ^ 4"
    using e s f p by simp
  have y4: "0 \<le> y ^ 4" using assms(1) by simp
  have "0 \<le> exp t / 24 * y ^ 4" using y4 by simp
  then show "1 - y + y\<^sup>2 / 2 - y ^ 3 / 6 \<le> exp (- y)" using r by linarith
  have "t \<le> 1" using t assms by linarith
  then have "exp t \<le> exp 1" by simp
  then have "exp t \<le> 3" using exp_le by linarith
  then have "exp t / 24 \<le> 1 / 8" by simp
  then have "exp t / 24 * y ^ 4 \<le> 1 / 8 * y ^ 4" using y4 by (rule mult_right_mono)
  then show "exp (- y) \<le> 1 - y + y\<^sup>2 / 2 - y ^ 3 / 6 + y ^ 4 / 8" using r by linarith
qed

lemma E0_bounds:
  "12484991 / 12582912 \<le> exp (- (1 / 128) :: real)"
  "exp (- (1 / 128) :: real) \<le> 6392315395 / 6442450944"
  using exp_neg_bounds[of "1 / 128"] by (simp_all add: power2_eq_square power3_eq_cube power4_eq_xxxx)

lemma E1_bounds:
  "190559 / 196608 \<le> exp (- (1 / 32) :: real)"
  "exp (- (1 / 32) :: real) \<le> 24391555 / 25165824"
  using exp_neg_bounds[of "1 / 32"] by (simp_all add: power2_eq_square power3_eq_cube power4_eq_xxxx)

lemma weight_form:
  fixes a k :: real
  assumes "0 < k"
  shows "exp (- (a + ln k)) = exp (- a) / k"
proof -
  have "exp (- (a + ln k)) = exp (- a) * exp (- ln k)"
    by (simp only: minus_add_distrib exp_add)
  also have "exp (- ln k) = inverse k"
    using assms by (simp only: exp_minus exp_ln)
  finally show ?thesis by (simp add: divide_inverse)
qed

lemma within_tolerance:
  fixes P :: real
  assumes "P < 338562851224 / 1000000000000" and "338560851224 / 1000000000000 < P"
  shows "\<bar>P - 0.338561851224\<bar> < 1 / 10 ^ 6"
proof -
  have "P - 0.338561851224 < 1 / 10 ^ 6" using assms(1) by simp
  moreover have "- (P - 0.338561851224) < 1 / 10 ^ 6" using assms(2) by simp
  ultimately show ?thesis by (rule abs_less_iff[THEN iffD2, OF conjI])
qed

text \<open>
  C7. For the net of two conditionals \<open>P(m) = 0.5/0.5\<close> and \<open>P(z | m)\<close> with the means 1 and 3
  and the noises 8 and 4, converting to a factor graph given \<open>z = 2\<close> and eliminating yields
  the discrete conditional on \<open>m\<close> with two values that lie within \<open>10\<^sup>-\<^sup>6\<close> of
  0.338561851224 and 0.661438148776; the mode with the smaller noise has the larger one.
\<close>

theorem GaussianMixtureModel2_posterior:
  "\<exists>p0 p1.
     posterior GaussianMixtureModel2_given GaussianMixtureModel2_hbn =
       Inr [DiscreteConditional [(1, 2)] (Choice 1 [Leaf p0, Leaf p1])] \<and>
     \<bar>p0 - 0.338561851224\<bar> < 1 / 10 ^ 6 \<and>
     \<bar>p1 - 0.661438148776\<bar> < 1 / 10 ^ 6 \<and>
     p0 < p1"
proof -
  define c :: real where "c = sqrt (2 * pi)"
  define E0 :: real where "E0 = exp (- (1 / 128))"
  define E1 :: real where "E1 = exp (- (1 / 32))"
  define w0 where "w0 = exp (- (1 / 128 + ln (8 * sqrt (2 * pi)))) * (1 / 2)"
  define w1 where "w1 = exp (- (1 / 32 + ln (4 * sqrt (2 * pi)))) * (1 / 2)"
  have c: "0 < c" unfolding c_def by simp
  have w0: "w0 = E0 / (16 * c)"
    unfolding w0_def E0_def using weight_form[of "8 * c" "1 / 128"] c
    by (simp add: c_def)
  have w1: "w1 = E1 / (8 * c)"
    unfolding w1_def E1_def using weight_form[of "4 * c" "1 / 32"] c
    by (simp add: c_def)
  have E0: "12484991 / 12582912 \<le> E0" "E0 \<le> 6392315395 / 6442450944"
    unfolding E0_def by (rule E0_bounds)+
  have E1: "190559 / 196608 \<le> E1" "E1 \<le> 24391555 / 25165824"
    unfolding E1_def by (rule E1_bounds)+
  have D: "0 < E0 + 2 * E1" using E0 E1 by linarith
  have p0: "w0 / (w0 + w1) = E0 / (E0 + 2 * E1)"
    unfolding w0 w1 using c D by (simp add: field_simps)
  have p1: "w1 / (w0 + w1) = 2 * E1 / (E0 + 2 * E1)"
    unfolding w0 w1 using c D by (simp add: field_simps)
  have b0: "\<bar>E0 / (E0 + 2 * E1) - 0.338561851224\<bar> < 1 / 10 ^ 6"
  proof -
    have u1: "661437148776 * E0 \<le> 661437148776 * (6392315395 / 6442450944)"
      using E0(2) by (intro mult_left_mono) simp_all
    have u2: "677125702448 * (190559 / 196608) \<le> 677125702448 * E1"
      using E1(1) by (intro mult_left_mono) simp_all
    have u3: "661437148776 * (6392315395 / 6442450944)
        < 677125702448 * (190559 / 196608 :: real)"
      by simp
    have up: "661437148776 * E0 < 677125702448 * E1"
      using u1 u2 u3 by linarith
    have l1: "677121702448 * E1 \<le> 677121702448 * (24391555 / 25165824)"
      using E1(2) by (intro mult_left_mono) simp_all
    have l2: "661439148776 * (12484991 / 12582912) \<le> 661439148776 * E0"
      using E0(1) by (intro mult_left_mono) simp_all
    have l3: "677121702448 * (24391555 / 25165824)
        < 661439148776 * (12484991 / 12582912 :: real)"
      by simp
    have lo: "677121702448 * E1 < 661439148776 * E0"
      using l1 l2 l3 by linarith
    have "E0 / (E0 + 2 * E1) < 338562851224 / 1000000000000"
      using D up by (simp add: divide_less_eq; linarith)
    moreover have "338560851224 / 1000000000000 < E0 / (E0 + 2 * E1)"
      using D lo by (simp add: less_divide_eq; linarith)
    ultimately show ?thesis by (rule within_tolerance)
  qed
  have sum: "2 * E1 / (E0 + 2 * E1) = 1 - E0 / (E0 + 2 * E1)"
    using D by (simp add: field_simps)
  have "2 * E1 / (E0 + 2 * E1) - 0.661438148776 = - (E0 / (E0 + 2 * E1) - 0.338561851224)"
    unfolding sum by simp
  then have b1: "\<bar>2 * E1 / (E0 + 2 * E1) - 0.661438148776\<bar> < 1 / 10 ^ 6"
    using b0 by (simp only: abs_minus)
  have lt: "E0 / (E0 + 2 * E1) < 2 * E1 / (E0 + 2 * E1)"
    using D E0 E1 by (simp add: divide_strict_right_mono)
  have "posterior GaussianMixtureModel2_given GaussianMixtureModel2_hbn =
       Inr [DiscreteConditional [(1, 2)]
         (Choice 1 [Leaf (w0 / (w0 + w1)), Leaf (w1 / (w0 + w1))])]"
    unfolding w0_def w1_def by (rule GaussianMixtureModel2_posterior_form)
  then show ?thesis using b0 b1 lt unfolding p0 p1 by blast
qed

end
